theory Spec2Isabelle
  imports Complex_Main "HOL-Library.Multiset"
begin

section \<open>Carbon footprint calculator (ETE-2.py)\<close>

text \<open>
  The script is one Streamlit page. Its numeric core is embedded here:
  the emission factor table, the five category estimators and their sum, the
  session history, the comparison against the world average and a country's
  latest per-capita value, the global ranking, the regional growth rates and
  the choice of the focus category.

  Python floats are read as real numbers: rounding and overflow are not
  modelled. The non-finite results of a numpy division by zero are modelled
  (type \<open>np_float\<close>), since the dataset code relies on numpy and pandas
  arithmetic, which does not raise.
\<close>

subsection \<open>Errors and dictionary lookup\<close>

datatype py_error = KeyError string | TypeError | IndexError | ValueError

definition bind_err :: "py_error + 'a \<Rightarrow> ('a \<Rightarrow> py_error + 'b) \<Rightarrow> py_error + 'b" where
  "bind_err m f = (case m of Inl e \<Rightarrow> Inl e | Inr x \<Rightarrow> f x)"

text \<open>\<open>s.startswith(p)\<close> of Python.\<close>

definition startswith :: "string \<Rightarrow> string \<Rightarrow> bool" where
  "startswith s p = (take (length p) s = p)"

text \<open>
  A value of the dictionary \<open>emission_factors\<close> is a number or a nested
  dictionary (the two multiplier tables).
\<close>

datatype factor = Num real | Table "(string \<times> real) list"

definition emission_factors :: "(string \<times> factor) list" where
  "emission_factors =
    [(''Car (Gasoline)'', Num 0.192),
     (''Car (Diesel)'', Num 0.171),
     (''Car (Electric)'', Num 0.053),
     (''Car (Hybrid)'', Num 0.106),
     (''Public Bus'', Num 0.105),
     (''Train/Subway'', Num 0.041),
     (''Bicycle'', Num 0),
     (''Walking'', Num 0),
     (''Motorcycle'', Num 0.103),
     (''Short Flight'', Num 500),
     (''Medium Flight'', Num 1500),
     (''Long Flight'', Num 3000),
     (''Electricity'', Num 0.5),
     (''Natural Gas'', Num 2.0),
     (''Oil'', Num 2.7),
     (''Electric Heating'', Num 0.5),
     (''Heat Pump'', Num 0.25),
     (''Wood'', Num 1.5),
     (''Coal'', Num 2.88),
     (''Heavy Meat Eater'', Num 7.19),
     (''Regular Meat Eater'', Num 5.63),
     (''Low Meat Eater'', Num 4.67),
     (''Pescatarian'', Num 3.91),
     (''Vegetarian'', Num 3.81),
     (''Vegan'', Num 2.89),
     (''Clothing Spending'',
        Table [(''Very Low'', 0.5), (''Low'', 0.75), (''Average'', 1.0),
               (''High'', 1.5), (''Very High'', 2.0)]),
     (''Electronics'', Num 100),
     (''Waste'', Num 0.5),
     (''Zero Waste Efforts'',
        Table [(''None'', 1.0), (''Minimal'', 0.9), (''Moderate'', 0.7),
               (''Significant'', 0.5), (''Zero-waste lifestyle'', 0.2)])]"

text \<open>
  \<open>emission_factors[k]\<close> used as a number: a missing key raises KeyError, and a
  nested dictionary in a product raises TypeError.
\<close>

definition factor_num :: "string \<Rightarrow> py_error + real" where
  "factor_num k =
     (case map_of emission_factors k of
        None \<Rightarrow> Inl (KeyError k)
      | Some (Num v) \<Rightarrow> Inr v
      | Some (Table t) \<Rightarrow> Inl TypeError)"

text \<open>\<open>emission_factors[k][j]\<close>: a number cannot be subscripted.\<close>

definition factor_sub :: "string \<Rightarrow> string \<Rightarrow> py_error + real" where
  "factor_sub k j =
     (case map_of emission_factors k of
        None \<Rightarrow> Inl (KeyError k)
      | Some (Num v) \<Rightarrow> Inl TypeError
      | Some (Table t) \<Rightarrow>
          (case map_of t j of None \<Rightarrow> Inl (KeyError j) | Some v \<Rightarrow> Inr v))"

subsection \<open>The lifestyle profile: the values of the input widgets\<close>

text \<open>
  \<open>fuel_efficiency\<close> is defined by the script exactly when the mode starts with
  \<open>Car\<close>, and \<open>ac_hours\<close> exactly when \<open>has_ac\<close> is set, which are the only
  places that read them; both are plain fields here.
\<close>

record profile =
  transport_mode :: string
  daily_distance :: real
  fuel_efficiency :: real
  flight_short :: int
  flight_medium :: int
  flight_long :: int
  electricity_kwh :: int
  renewable_percentage :: int
  heating_type :: string
  heating_usage :: int
  has_ac :: bool
  ac_hours :: int
  diet_type :: string
  local_food :: int
  organic_food :: int
  food_waste :: int
  processed_food :: int
  clothing_spending :: string
  electronics_yearly :: int
  recycled_items :: "string list"
  second_hand :: int
  waste_weekly :: real
  composting :: bool
  recycling_rate :: int
  zero_waste :: string

text \<open>The options offered by the select boxes and sliders.\<close>

definition transport_modes :: "string list" where
  "transport_modes =
     [''Car (Gasoline)'', ''Car (Diesel)'', ''Car (Electric)'', ''Car (Hybrid)'',
      ''Public Bus'', ''Train/Subway'', ''Bicycle'', ''Walking'', ''Motorcycle'']"

definition heating_types :: "string list" where
  "heating_types = [''Natural Gas'', ''Oil'', ''Electric'', ''Heat Pump'', ''Wood'', ''Coal'']"

definition diet_types :: "string list" where
  "diet_types =
     [''Heavy Meat Eater'', ''Regular Meat Eater'', ''Low Meat Eater'',
      ''Pescatarian'', ''Vegetarian'', ''Vegan'']"

definition clothing_options :: "string list" where
  "clothing_options = [''Very Low'', ''Low'', ''Average'', ''High'', ''Very High'']"

definition recycle_options :: "string list" where
  "recycle_options = [''Paper'', ''Plastic'', ''Glass'', ''Metal'', ''Electronics'']"

definition zero_waste_options :: "string list" where
  "zero_waste_options =
     [''None'', ''Minimal'', ''Moderate'', ''Significant'', ''Zero-waste lifestyle'']"

definition percentage :: "int \<Rightarrow> bool" where
  "percentage n = (0 \<le> n \<and> n \<le> 100)"

definition valid_profile :: "profile \<Rightarrow> bool" where
  "valid_profile p =
     (transport_mode p \<in> set transport_modes \<and>
      0 \<le> daily_distance p \<and> 0 < fuel_efficiency p \<and>
      0 \<le> flight_short p \<and> 0 \<le> flight_medium p \<and> 0 \<le> flight_long p \<and>
      0 \<le> electricity_kwh p \<and> percentage (renewable_percentage p) \<and>
      heating_type p \<in> set heating_types \<and> 0 \<le> heating_usage p \<and>
      0 \<le> ac_hours p \<and>
      diet_type p \<in> set diet_types \<and>
      percentage (local_food p) \<and> percentage (organic_food p) \<and>
      percentage (food_waste p) \<and> percentage (processed_food p) \<and>
      clothing_spending p \<in> set clothing_options \<and> 0 \<le> electronics_yearly p \<and>
      distinct (recycled_items p) \<and> set (recycled_items p) \<subseteq> set recycle_options \<and>
      percentage (second_hand p) \<and>
      0 \<le> waste_weekly p \<and> percentage (recycling_rate p) \<and>
      zero_waste p \<in> set zero_waste_options)"

subsection \<open>The category estimators (the body of the Calculate button)\<close>

text \<open>The daily commute, annualised. The unused \<open>liters_per_day\<close> is left out.\<close>

definition commute_emissions :: "profile \<Rightarrow> py_error + real" where
  "commute_emissions p =
     (if startswith (transport_mode p) ''Car'' then
        (if transport_mode p = ''Car (Electric)'' then
           bind_err (factor_num (transport_mode p)) (\<lambda>f.
             Inr (((daily_distance p * fuel_efficiency p) / 100) * f * 365))
         else
           bind_err (factor_num (transport_mode p)) (\<lambda>f.
             Inr (daily_distance p * f * 365)))
      else
        bind_err (factor_num (transport_mode p)) (\<lambda>f.
          Inr (daily_distance p * f * 365)))"

definition transport_emissions :: "profile \<Rightarrow> py_error + real" where
  "transport_emissions p =
     bind_err (commute_emissions p) (\<lambda>c.
     bind_err (factor_num ''Short Flight'') (\<lambda>fs.
     bind_err (factor_num ''Medium Flight'') (\<lambda>fm.
     bind_err (factor_num ''Long Flight'') (\<lambda>fl.
       Inr (0 + c + real_of_int (flight_short p) * fs
                  + real_of_int (flight_medium p) * fm
                  + real_of_int (flight_long p) * fl)))))"

definition heating_factor :: "profile \<Rightarrow> py_error + real" where
  "heating_factor p =
     (if heating_type p = ''Electric'' then factor_num ''Electric Heating''
      else factor_num (heating_type p))"

definition energy_emissions :: "profile \<Rightarrow> py_error + real" where
  "energy_emissions p =
     bind_err (factor_num ''Electricity'') (\<lambda>fe.
     bind_err (heating_factor p) (\<lambda>hf.
       let e1 = 0 + real_of_int (electricity_kwh p) * fe
                      * (1 - real_of_int (renewable_percentage p) / 100) * 12;
           e2 = e1 + real_of_int (heating_usage p) * hf * 12
       in if has_ac p then
            bind_err (factor_num ''Electricity'') (\<lambda>fa.
              Inr (e2 + real_of_int (ac_hours p) * 365 * fa
                          * (1 - real_of_int (renewable_percentage p) / 100)))
          else Inr e2))"

definition diet_emissions :: "profile \<Rightarrow> py_error + real" where
  "diet_emissions p =
     bind_err (factor_num (diet_type p)) (\<lambda>fd.
       let local_modifier = 1 - real_of_int (local_food p) / 200;
           organic_modifier = 1 - real_of_int (organic_food p) / 250;
           waste_modifier = 1 + real_of_int (food_waste p) / 100;
           processed_modifier = 1 + real_of_int (processed_food p) / 200
       in Inr ((fd * 365) *
               (local_modifier * organic_modifier * waste_modifier * processed_modifier)))"

definition consumption_emissions :: "profile \<Rightarrow> py_error + real" where
  "consumption_emissions p =
     bind_err (factor_sub ''Clothing Spending'' (clothing_spending p)) (\<lambda>clothing_factor.
     bind_err (factor_num ''Electronics'') (\<lambda>fe.
       let c = 0 + clothing_factor * 500 + real_of_int (electronics_yearly p) * fe;
           recycling_modifier = 1 - real (length (recycled_items p)) * 0.05;
           secondhand_modifier = 1 - real_of_int (second_hand p) / 200
       in Inr (c * (recycling_modifier * secondhand_modifier))))"

definition waste_emissions :: "profile \<Rightarrow> py_error + real" where
  "waste_emissions p =
     bind_err (factor_num ''Waste'') (\<lambda>fw.
       let w0 = waste_weekly p * fw * 52;
           w1 = (if composting p then w0 * 0.8 else w0);
           w2 = w1 * (1 - real_of_int (recycling_rate p) / 200)
       in bind_err (factor_sub ''Zero Waste Efforts'' (zero_waste p)) (\<lambda>fz.
            Inr (w2 * fz)))"

record breakdown =
  b_transport :: real
  b_home_energy :: real
  b_diet :: real
  b_consumption :: real
  b_waste :: real
  b_total :: real

text \<open>The five estimators in the order of the script, then their sum.\<close>

definition compute_breakdown :: "profile \<Rightarrow> py_error + breakdown" where
  "compute_breakdown p =
     bind_err (transport_emissions p) (\<lambda>t.
     bind_err (energy_emissions p) (\<lambda>e.
     bind_err (diet_emissions p) (\<lambda>d.
     bind_err (consumption_emissions p) (\<lambda>c.
     bind_err (waste_emissions p) (\<lambda>w.
       Inr \<lparr>b_transport = t, b_home_energy = e, b_diet = d,
            b_consumption = c, b_waste = w,
            b_total = t + e + d + c + w\<rparr>)))))"

subsection \<open>The session state and the Calculate button\<close>

record emissions_data =
  date :: "string list"
  transport :: "real list"
  home_energy :: "real list"
  diet :: "real list"
  consumption :: "real list"
  waste :: "real list"
  total :: "real list"

record session_state =
  total_emissions :: real
  emissions_data :: emissions_data

text \<open>The state of a fresh session.\<close>

definition initial_state :: session_state where
  "initial_state =
     \<lparr>total_emissions = 0,
      emissions_data = \<lparr>date = [], transport = [], home_energy = [], diet = [],
                        consumption = [], waste = [], total = []\<rparr>\<rparr>"

text \<open>
  One press of the button with the clock reading \<open>now\<close> (the formatted date).
  All five values are computed before the state is touched; an exception leaves
  the state as it was.
\<close>

definition calculate :: "session_state \<Rightarrow> profile \<Rightarrow> string \<Rightarrow> py_error + session_state" where
  "calculate s p now =
     bind_err (compute_breakdown p) (\<lambda>b.
       let d = emissions_data s
       in Inr \<lparr>total_emissions = b_total b,
               emissions_data =
                 \<lparr>date = date d @ [now],
                  transport = transport d @ [b_transport b],
                  home_energy = home_energy d @ [b_home_energy b],
                  diet = diet d @ [b_diet b],
                  consumption = consumption d @ [b_consumption b],
                  waste = waste d @ [b_waste b],
                  total = total d @ [b_total b]\<rparr>\<rparr>)"

text \<open>The number of records in the history.\<close>

definition history_length :: "session_state \<Rightarrow> nat" where
  "history_length s = length (date (emissions_data s))"

subsection \<open>Comparison with the world average\<close>

text \<open>Plain Python arithmetic; the divisor is the constant 4700.\<close>

definition world_average :: real where
  "world_average = 4700"

definition percentage_diff_world :: "real \<Rightarrow> real" where
  "percentage_diff_world tot = ((tot - world_average) / world_average) * 100"

subsection \<open>The focus category and its recommendations\<close>

definition categories :: "string list" where
  "categories = [''transport'', ''home_energy'', ''diet'', ''consumption'', ''waste'']"

text \<open>\<open>xs[-1]\<close>\<close>

definition py_last :: "'a list \<Rightarrow> py_error + 'a" where
  "py_last xs = (if xs = [] then Inl IndexError else Inr (last xs))"

text \<open>\<open>max(xs)\<close>: the running maximum is replaced only by a strictly larger item.\<close>

fun py_max :: "real list \<Rightarrow> py_error + real" where
  "py_max [] = Inl ValueError"
| "py_max (x # xs) = Inr (fold (\<lambda>y m. if m < y then y else m) xs x)"

text \<open>\<open>xs.index(v)\<close>: the first position that holds \<open>v\<close>.\<close>

fun py_index :: "real list \<Rightarrow> real \<Rightarrow> py_error + nat" where
  "py_index [] v = Inl ValueError"
| "py_index (x # xs) v =
     (if x = v then Inr 0 else bind_err (py_index xs v) (\<lambda>i. Inr (Suc i)))"

definition latest_emissions :: "emissions_data \<Rightarrow> py_error + real list" where
  "latest_emissions d =
     bind_err (py_last (transport d)) (\<lambda>t.
     bind_err (py_last (home_energy d)) (\<lambda>e.
     bind_err (py_last (diet d)) (\<lambda>di.
     bind_err (py_last (consumption d)) (\<lambda>c.
     bind_err (py_last (waste d)) (\<lambda>w. Inr [t, e, di, c, w])))))"

definition highest_category_index :: "real list \<Rightarrow> py_error + nat" where
  "highest_category_index emissions =
     bind_err (py_max emissions) (\<lambda>m. py_index emissions m)"

definition highest_category :: "real list \<Rightarrow> py_error + string" where
  "highest_category emissions =
     bind_err (highest_category_index emissions) (\<lambda>i.
       if i < length categories then Inr (categories ! i) else Inl IndexError)"

definition recommendations :: "(string \<times> string list) list" where
  "recommendations =
    [(''transport'',
       [''Consider carpooling or using public transportation more frequently'',
        ''If possible, work from home a few days a week to reduce commute emissions'',
        ''For short distances, consider walking or cycling instead of driving'',
        ''If you're in the market for a new vehicle, consider electric or hybrid options'']),
     (''home_energy'',
       [''Switch to LED light bulbs throughout your home'',
        ''Improve home insulation to reduce heating/cooling needs'',
        ''Consider investing in renewable energy sources like solar panels'',
        ''Unplug electronics when not in use to avoid phantom energy usage'']),
     (''diet'',
       [''Try to incorporate more plant-based meals into your diet'',
        ''Buy more locally produced and seasonal foods'',
        ''Plan meals to reduce food waste'',
        ''Compost food scraps instead of sending them to landfill'']),
     (''consumption'',
       [''Before buying new items, consider if you can repair, borrow, or buy second-hand'',
        ''Invest in quality items that will last longer, even if they cost more initially'',
        ''Recycle as much as possible and properly dispose of electronics'',
        ''Support companies with sustainable practices and certifications'']),
     (''waste'',
       [''Start composting food scraps and yard waste'',
        ''Switch to reusable alternatives for common disposable items'',
        ''Buy products with minimal or recyclable packaging'',
        ''Participate in local recycling programs and ensure you're recycling correctly''])]"

definition select_focus :: "real list \<Rightarrow> py_error + string \<times> string list" where
  "select_focus emissions =
     bind_err (highest_category emissions) (\<lambda>c.
       case map_of recommendations c of
         None \<Rightarrow> Inl (KeyError c)
       | Some recs \<Rightarrow> Inr (c, recs))"

subsection \<open>numpy floats\<close>

text \<open>
  Values read from the data frame are numpy floats, and arithmetic on them follows
  IEEE 754 without raising: a division by zero gives an infinity or NaN. Finite
  values are real numbers here.
\<close>

datatype np_float = Finite real | PosInf | NegInf | NaN

fun np_sub :: "np_float \<Rightarrow> np_float \<Rightarrow> np_float" where
  "np_sub NaN y = NaN"
| "np_sub x NaN = NaN"
| "np_sub (Finite a) (Finite b) = Finite (a - b)"
| "np_sub (Finite a) PosInf = NegInf"
| "np_sub (Finite a) NegInf = PosInf"
| "np_sub PosInf PosInf = NaN"
| "np_sub PosInf y = PosInf"
| "np_sub NegInf NegInf = NaN"
| "np_sub NegInf y = NegInf"

fun np_mul :: "np_float \<Rightarrow> np_float \<Rightarrow> np_float" where
  "np_mul NaN y = NaN"
| "np_mul x NaN = NaN"
| "np_mul (Finite a) (Finite b) = Finite (a * b)"
| "np_mul (Finite a) PosInf = (if 0 < a then PosInf else if a < 0 then NegInf else NaN)"
| "np_mul (Finite a) NegInf = (if 0 < a then NegInf else if a < 0 then PosInf else NaN)"
| "np_mul PosInf (Finite b) = (if 0 < b then PosInf else if b < 0 then NegInf else NaN)"
| "np_mul NegInf (Finite b) = (if 0 < b then NegInf else if b < 0 then PosInf else NaN)"
| "np_mul PosInf PosInf = PosInf"
| "np_mul PosInf NegInf = NegInf"
| "np_mul NegInf PosInf = NegInf"
| "np_mul NegInf NegInf = PosInf"

text \<open>The sign of a zero divisor is not tracked: a zero counts as positive.\<close>

fun np_div :: "np_float \<Rightarrow> np_float \<Rightarrow> np_float" where
  "np_div NaN y = NaN"
| "np_div x NaN = NaN"
| "np_div (Finite a) (Finite b) =
     (if b \<noteq> 0 then Finite (a / b)
      else if 0 < a then PosInf else if a < 0 then NegInf else NaN)"
| "np_div (Finite a) y = Finite 0"
| "np_div PosInf (Finite b) = (if 0 \<le> b then PosInf else NegInf)"
| "np_div NegInf (Finite b) = (if 0 \<le> b then NegInf else PosInf)"
| "np_div x y = NaN"

definition is_finite :: "np_float \<Rightarrow> bool" where
  "is_finite x = (case x of Finite a \<Rightarrow> True | _ \<Rightarrow> False)"

subsection \<open>The reference dataset\<close>

record ref_record =
  country :: string
  year :: int
  region :: string
  metric_tons_per_capita :: real
  kilotons_of_co2 :: real

text \<open>
  \<open>sort_values(col, ascending=False)\<close> of pandas is a parameter: its default
  algorithm is not stable, so nothing is fixed about the order of rows with equal
  keys. What is used of it is that it returns the rows rearranged in descending
  order of the key.
\<close>

type_synonym sorter = "(ref_record \<Rightarrow> real) \<Rightarrow> ref_record list \<Rightarrow> ref_record list"

definition sorts_descending :: "sorter \<Rightarrow> bool" where
  "sorts_descending srt =
     (\<forall>key xs. mset (srt key xs) = mset xs \<and>
                sorted_wrt (\<lambda>a b. key b \<le> key a) (srt key xs))"

text \<open>One such function: the stable insertion sort on the negated key.\<close>

definition sort_values_desc :: sorter where
  "sort_values_desc key xs = sort_key (\<lambda>r. - key r) xs"

text \<open>The rows of the selected country, most recent year first.\<close>

definition country_data :: "sorter \<Rightarrow> ref_record list \<Rightarrow> string \<Rightarrow> ref_record list" where
  "country_data srt df selected_country =
     srt (\<lambda>r. real_of_int (year r)) (filter (\<lambda>r. country r = selected_country) df)"

text \<open>
  The difference to the country's latest per-capita value: the user's total is a
  Python float, the reference a numpy float, so the arithmetic is numpy's.
\<close>

definition percentage_diff_country :: "real \<Rightarrow> real \<Rightarrow> np_float" where
  "percentage_diff_country tot latest_emissions_per_capita =
     np_mul (np_div (np_sub (Finite tot) (Finite latest_emissions_per_capita))
                    (Finite latest_emissions_per_capita))
            (Finite 100)"

record country_comparison =
  cmp_latest_year :: int
  cmp_reference :: real
  cmp_percentage_diff :: np_float

text \<open>The comparison block; \<open>None\<close> when the country has no rows and the block is skipped.\<close>

definition compare_country ::
  "sorter \<Rightarrow> ref_record list \<Rightarrow> string \<Rightarrow> real \<Rightarrow> country_comparison option" where
  "compare_country srt df selected_country tot =
     (case country_data srt df selected_country of
        [] \<Rightarrow> None
      | r # rs \<Rightarrow>
          let latest_emissions_per_capita = metric_tons_per_capita r * 1000
          in Some \<lparr>cmp_latest_year = year r,
                   cmp_reference = latest_emissions_per_capita,
                   cmp_percentage_diff =
                     percentage_diff_country tot latest_emissions_per_capita\<rparr>)"

text \<open>The rows of one year in descending per-capita order, indexed from 1.\<close>

definition global_data :: "sorter \<Rightarrow> ref_record list \<Rightarrow> int \<Rightarrow> (nat \<times> ref_record) list" where
  "global_data srt df y =
     (let rows = srt metric_tons_per_capita (filter (\<lambda>r. year r = y) df)
      in zip [1 ..< Suc (length rows)] rows)"

text \<open>The index of the first row of the country; \<open>index[0]\<close> of an empty index raises.\<close>

definition country_rank :: "sorter \<Rightarrow> ref_record list \<Rightarrow> int \<Rightarrow> string \<Rightarrow> py_error + nat" where
  "country_rank srt df y selected_country =
     (case filter (\<lambda>(i, r). country r = selected_country) (global_data srt df y) of
        [] \<Rightarrow> Inl IndexError
      | (i, r) # rest \<Rightarrow> Inr i)"

text \<open>
  A cell of the pivot of the kilotons summed by year and region: NaN where the
  region has no row in that year.
\<close>

definition kilotons_cell :: "ref_record list \<Rightarrow> int \<Rightarrow> string \<Rightarrow> np_float" where
  "kilotons_cell df y g =
     (let rows = filter (\<lambda>r. year r = y \<and> region r = g) df
      in if rows = [] then NaN else Finite (sum_list (map kilotons_of_co2 rows)))"

definition growth_pct :: "np_float \<Rightarrow> np_float \<Rightarrow> np_float" where
  "growth_pct latest earliest = np_mul (np_sub (np_div latest earliest) (Finite 1)) (Finite 100)"

text \<open>
  \<open>region_growth_pct[g]\<close>: \<open>None\<close> when the data frame is empty and the block is
  skipped; KeyError when \<open>g\<close> is no region of the data.
\<close>

definition region_growth_pct :: "ref_record list \<Rightarrow> string \<Rightarrow> (py_error + np_float) option" where
  "region_growth_pct df g =
     (case map year df of
        [] \<Rightarrow> None
      | y # ys \<Rightarrow>
          let earliest_year = fold min ys y;
              latest_year = fold max ys y
          in Some (if g \<in> set (map region df)
                   then Inr (growth_pct (kilotons_cell df latest_year g)
                                        (kilotons_cell df earliest_year g))
                   else Inl (KeyError g)))"

subsection \<open>Sample inputs\<close>

text \<open>Scenario A of the specification; the two unread fields are set to the widget defaults.\<close>

definition scenario_a :: profile where
  "scenario_a =
     \<lparr>transport_mode = ''Car (Gasoline)'', daily_distance = 10, fuel_efficiency = 8,
      flight_short = 0, flight_medium = 0, flight_long = 0,
      electricity_kwh = 300, renewable_percentage = 0,
      heating_type = ''Natural Gas'', heating_usage = 100,
      has_ac = False, ac_hours = 2,
      diet_type = ''Regular Meat Eater'', local_food = 20, organic_food = 20,
      food_waste = 15, processed_food = 30,
      clothing_spending = ''Average'', electronics_yearly = 1,
      recycled_items = [], second_hand = 10,
      waste_weekly = 10, composting = False, recycling_rate = 30,
      zero_waste = ''None''\<rparr>"

definition sample_df :: "ref_record list" where
  "sample_df =
     [\<lparr>country = ''A'', year = 1990, region = ''North'', metric_tons_per_capita = 2,
       kilotons_of_co2 = 10\<rparr>,
      \<lparr>country = ''B'', year = 1990, region = ''South'', metric_tons_per_capita = 5,
       kilotons_of_co2 = 0\<rparr>,
      \<lparr>country = ''A'', year = 2019, region = ''North'', metric_tons_per_capita = 3,
       kilotons_of_co2 = 15\<rparr>,
      \<lparr>country = ''B'', year = 2019, region = ''South'', metric_tons_per_capita = 7,
       kilotons_of_co2 = 40\<rparr>,
      \<lparr>country = ''C'', year = 2019, region = ''South'', metric_tons_per_capita = 0,
       kilotons_of_co2 = 0\<rparr>]"

section \<open>Properties\<close>

subsection \<open>Table lookups, evaluated\<close>

lemma bind_err_simps [simp]:
  "bind_err (Inl e) f = Inl e"
  "bind_err (Inr x) f = f x"
  by (simp_all add: bind_err_def)

lemma factor_num_simps:
  "factor_num ''Car (Gasoline)'' = Inr 0.192"
  "factor_num ''Car (Diesel)'' = Inr 0.171"
  "factor_num ''Car (Electric)'' = Inr 0.053"
  "factor_num ''Car (Hybrid)'' = Inr 0.106"
  "factor_num ''Public Bus'' = Inr 0.105"
  "factor_num ''Train/Subway'' = Inr 0.041"
  "factor_num ''Bicycle'' = Inr 0"
  "factor_num ''Walking'' = Inr 0"
  "factor_num ''Motorcycle'' = Inr 0.103"
  "factor_num ''Short Flight'' = Inr 500"
  "factor_num ''Medium Flight'' = Inr 1500"
  "factor_num ''Long Flight'' = Inr 3000"
  "factor_num ''Electricity'' = Inr 0.5"
  "factor_num ''Natural Gas'' = Inr 2.0"
  "factor_num ''Oil'' = Inr 2.7"
  "factor_num ''Electric Heating'' = Inr 0.5"
  "factor_num ''Heat Pump'' = Inr 0.25"
  "factor_num ''Wood'' = Inr 1.5"
  "factor_num ''Coal'' = Inr 2.88"
  "factor_num ''Heavy Meat Eater'' = Inr 7.19"
  "factor_num ''Regular Meat Eater'' = Inr 5.63"
  "factor_num ''Low Meat Eater'' = Inr 4.67"
  "factor_num ''Pescatarian'' = Inr 3.91"
  "factor_num ''Vegetarian'' = Inr 3.81"
  "factor_num ''Vegan'' = Inr 2.89"
  "factor_num ''Electronics'' = Inr 100"
  "factor_num ''Waste'' = Inr 0.5"
  by (simp_all add: factor_num_def emission_factors_def)

lemma factor_sub_simps:
  "factor_sub ''Clothing Spending'' ''Very Low'' = Inr 0.5"
  "factor_sub ''Clothing Spending'' ''Low'' = Inr 0.75"
  "factor_sub ''Clothing Spending'' ''Average'' = Inr 1.0"
  "factor_sub ''Clothing Spending'' ''High'' = Inr 1.5"
  "factor_sub ''Clothing Spending'' ''Very High'' = Inr 2.0"
  "factor_sub ''Zero Waste Efforts'' ''None'' = Inr 1.0"
  "factor_sub ''Zero Waste Efforts'' ''Minimal'' = Inr 0.9"
  "factor_sub ''Zero Waste Efforts'' ''Moderate'' = Inr 0.7"
  "factor_sub ''Zero Waste Efforts'' ''Significant'' = Inr 0.5"
  "factor_sub ''Zero Waste Efforts'' ''Zero-waste lifestyle'' = Inr 0.2"
  by (simp_all add: factor_sub_def emission_factors_def)

lemma nonneg_result:
  assumes "case r of Inl e \<Rightarrow> False | Inr (f::real) \<Rightarrow> 0 \<le> f"
  shows "\<exists>f. r = Inr f \<and> 0 \<le> f"
  using assms by (cases r) auto

lemma transport_mode_factor:
  assumes "m \<in> set transport_modes"
  shows "\<exists>f. factor_num m = Inr f \<and> 0 \<le> f"
proof (rule nonneg_result)
  show "case factor_num m of Inl e \<Rightarrow> False | Inr f \<Rightarrow> 0 \<le> f"
    using assms by (auto simp: transport_modes_def factor_num_simps)
qed

lemma heating_type_factor:
  assumes "heating_type p \<in> set heating_types"
  shows "\<exists>f. heating_factor p = Inr f \<and> 0 \<le> f"
proof (rule nonneg_result)
  show "case heating_factor p of Inl e \<Rightarrow> False | Inr f \<Rightarrow> 0 \<le> f"
    using assms by (auto simp: heating_types_def heating_factor_def factor_num_simps)
qed

lemma diet_type_factor:
  assumes "m \<in> set diet_types"
  shows "\<exists>f. factor_num m = Inr f \<and> 0 \<le> f"
proof (rule nonneg_result)
  show "case factor_num m of Inl e \<Rightarrow> False | Inr f \<Rightarrow> 0 \<le> f"
    using assms by (auto simp: diet_types_def factor_num_simps)
qed

lemma clothing_factor:
  assumes "m \<in> set clothing_options"
  shows "\<exists>f. factor_sub ''Clothing Spending'' m = Inr f \<and> 0 \<le> f"
proof (rule nonneg_result)
  show "case factor_sub ''Clothing Spending'' m of Inl e \<Rightarrow> False | Inr f \<Rightarrow> 0 \<le> f"
    using assms by (auto simp: clothing_options_def factor_sub_simps)
qed

lemma zero_waste_factor:
  assumes "m \<in> set zero_waste_options"
  shows "\<exists>f. factor_sub ''Zero Waste Efforts'' m = Inr f \<and> 0 \<le> f"
proof (rule nonneg_result)
  show "case factor_sub ''Zero Waste Efforts'' m of Inl e \<Rightarrow> False | Inr f \<Rightarrow> 0 \<le> f"
    using assms by (auto simp: zero_waste_options_def factor_sub_simps)
qed

lemma startswith_Car_Electric: "startswith ''Car (Electric)'' ''Car''"
  by (simp add: startswith_def)

lemma commute_emissions_Inr:
  assumes "factor_num (transport_mode p) = Inr f"
  shows "commute_emissions p =
           Inr (if transport_mode p = ''Car (Electric)''
                then ((daily_distance p * fuel_efficiency p) / 100) * f * 365
                else daily_distance p * f * 365)"
  using assms by (auto simp: commute_emissions_def startswith_Car_Electric)

subsection \<open>The category estimators, verified\<close>

text \<open>
  C1. The commute term of the transport estimator reads the fuel efficiency for
  \<open>Car (Electric)\<close> only: there it is (distance * efficiency / 100) * factor * 365.
  For every other mode of the select box, the other car modes included, it is
  distance * factor * 365, whatever efficiency was entered.
\<close>

theorem commute_emissions_asymmetry:
  assumes "transport_mode p \<in> set transport_modes"
  shows "\<exists>f. factor_num (transport_mode p) = Inr f \<and>
           commute_emissions p =
             Inr (if transport_mode p = ''Car (Electric)''
                  then ((daily_distance p * fuel_efficiency p) / 100) * f * 365
                  else daily_distance p * f * 365) \<and>
           (transport_mode p \<noteq> ''Car (Electric)'' \<longrightarrow>
              (\<forall>e. commute_emissions (p\<lparr>fuel_efficiency := e\<rparr>) = commute_emissions p))"
proof -
  from transport_mode_factor [OF assms]
  obtain f where f: "factor_num (transport_mode p) = Inr f" by blast
  have "commute_emissions (p\<lparr>fuel_efficiency := e\<rparr>) = commute_emissions p"
    if "transport_mode p \<noteq> ''Car (Electric)''" for e
    using that f by (simp add: commute_emissions_Inr)
  with f commute_emissions_Inr [OF f] show ?thesis by blast
qed

theorem commute_emissions_asymmetry_witness:
  "transport_mode scenario_a \<in> set transport_modes \<and>
   factor_num (transport_mode scenario_a) = Inr 0.192 \<and>
   commute_emissions scenario_a = Inr (10 * 0.192 * 365) \<and>
   commute_emissions (scenario_a\<lparr>fuel_efficiency := 20\<rparr>) = commute_emissions scenario_a"
proof -
  have m: "transport_mode scenario_a \<in> set transport_modes"
    by (simp add: scenario_a_def transport_modes_def)
  from commute_emissions_asymmetry [OF m] m show ?thesis
    by (auto simp: scenario_a_def factor_num_simps)
qed

text \<open>
  C9. The home energy estimator: electricity * electricity factor *
  (1 - renewable/100) * 12, plus heating units * heating factor * 12, plus, with air
  conditioning, hours * 365 * electricity factor * (1 - renewable/100). The heating
  factor is the table entry of the heating type, except that \<open>Electric\<close> (no key
  of the table) reads the entry \<open>Electric Heating\<close>, not \<open>Electricity\<close>.
\<close>

theorem energy_emissions_formula:
  assumes "heating_type p \<in> set heating_types"
  shows "\<exists>fe hf.
           factor_num ''Electricity'' = Inr fe \<and>
           factor_num (if heating_type p = ''Electric'' then ''Electric Heating''
                       else heating_type p) = Inr hf \<and>
           map_of emission_factors ''Electric'' = None \<and>
           energy_emissions p =
             Inr (real_of_int (electricity_kwh p) * fe
                    * (1 - real_of_int (renewable_percentage p) / 100) * 12
                  + real_of_int (heating_usage p) * hf * 12
                  + (if has_ac p
                     then real_of_int (ac_hours p) * 365 * fe
                            * (1 - real_of_int (renewable_percentage p) / 100)
                     else 0))"
proof -
  from heating_type_factor [OF assms]
  obtain hf where hf: "heating_factor p = Inr hf" by blast
  then have hf': "factor_num (if heating_type p = ''Electric'' then ''Electric Heating''
                              else heating_type p) = Inr hf"
    by (simp add: heating_factor_def split: if_splits)
  have fe: "factor_num ''Electricity'' = Inr 0.5"
    by (simp add: factor_num_simps)
  have none: "map_of emission_factors ''Electric'' = None"
    by (simp add: emission_factors_def)
  have "energy_emissions p =
          Inr (real_of_int (electricity_kwh p) * 0.5
                 * (1 - real_of_int (renewable_percentage p) / 100) * 12
               + real_of_int (heating_usage p) * hf * 12
               + (if has_ac p
                  then real_of_int (ac_hours p) * 365 * 0.5
                         * (1 - real_of_int (renewable_percentage p) / 100)
                  else 0))"
    by (simp add: energy_emissions_def hf fe Let_def)
  with fe hf' none show ?thesis by blast
qed

theorem energy_emissions_formula_witness:
  "heating_type (scenario_a\<lparr>heating_type := ''Electric'', has_ac := True\<rparr>) \<in> set heating_types \<and>
   energy_emissions (scenario_a\<lparr>heating_type := ''Electric'', has_ac := True\<rparr>) =
     Inr (300 * 0.5 * 1 * 12 + 100 * 0.5 * 12 + 2 * 365 * 0.5 * 1)"
proof -
  let ?p = "scenario_a\<lparr>heating_type := ''Electric'', has_ac := True\<rparr>"
  have m: "heating_type ?p \<in> set heating_types"
    by (simp add: scenario_a_def heating_types_def)
  from energy_emissions_formula [OF m] m show ?thesis
    by (auto simp: scenario_a_def factor_num_simps)
qed

text \<open>Each estimator on a valid profile returns a number, and it is not negative.\<close>

lemma percentage_bounds:
  assumes "percentage n"
  shows "0 \<le> real_of_int n" and "real_of_int n \<le> 100"
  using assms by (simp_all add: percentage_def)

lemma transport_emissions_nonneg:
  assumes "valid_profile p"
  shows "\<exists>t. transport_emissions p = Inr t \<and> 0 \<le> t"
proof -
  from assms have m: "transport_mode p \<in> set transport_modes"
    and d: "0 \<le> daily_distance p" and e: "0 < fuel_efficiency p"
    and fl: "0 \<le> flight_short p" "0 \<le> flight_medium p" "0 \<le> flight_long p"
    by (simp_all add: valid_profile_def)
  from transport_mode_factor [OF m]
  obtain f where f: "factor_num (transport_mode p) = Inr f" and f0: "0 \<le> f" by blast
  define c where "c = (if transport_mode p = ''Car (Electric)''
                       then ((daily_distance p * fuel_efficiency p) / 100) * f * 365
                       else daily_distance p * f * 365)"
  have c: "commute_emissions p = Inr c"
    unfolding c_def by (rule commute_emissions_Inr [OF f])
  have c0: "0 \<le> c"
    using d e f0 by (simp add: c_def)
  have t: "transport_emissions p =
             Inr (0 + c + real_of_int (flight_short p) * 500
                        + real_of_int (flight_medium p) * 1500
                        + real_of_int (flight_long p) * 3000)"
    by (simp add: transport_emissions_def c factor_num_simps)
  have "0 \<le> 0 + c + real_of_int (flight_short p) * 500
                    + real_of_int (flight_medium p) * 1500
                    + real_of_int (flight_long p) * 3000"
    using c0 fl by simp
  with t show ?thesis by blast
qed

lemma energy_emissions_nonneg:
  assumes "valid_profile p"
  shows "\<exists>t. energy_emissions p = Inr t \<and> 0 \<le> t"
proof -
  from assms have m: "heating_type p \<in> set heating_types"
    and k: "0 \<le> electricity_kwh p" and h: "0 \<le> heating_usage p"
    and a: "0 \<le> ac_hours p" and r: "percentage (renewable_percentage p)"
    by (simp_all add: valid_profile_def)
  from heating_type_factor [OF m]
  obtain hf where hf: "heating_factor p = Inr hf" and hf0: "0 \<le> hf" by blast
  define q where "q = 1 - real_of_int (renewable_percentage p) / 100"
  have q0: "0 \<le> q"
    using percentage_bounds [OF r] by (simp add: q_def)
  define e2 where "e2 = 0 + real_of_int (electricity_kwh p) * 0.5 * q * 12
                          + real_of_int (heating_usage p) * hf * 12"
  have e20: "0 \<le> e2"
    using k h hf0 q0 by (simp add: e2_def)
  have ea: "0 \<le> e2 + real_of_int (ac_hours p) * 365 * 0.5 * q"
    using e20 a q0 by simp
  have "energy_emissions p =
          Inr (if has_ac p then e2 + real_of_int (ac_hours p) * 365 * 0.5 * q else e2)"
    by (simp add: energy_emissions_def hf factor_num_simps Let_def e2_def q_def)
  with e20 ea show ?thesis by auto
qed

lemma diet_emissions_nonneg:
  assumes "valid_profile p"
  shows "\<exists>t. diet_emissions p = Inr t \<and> 0 \<le> t"
proof -
  from assms have m: "diet_type p \<in> set diet_types"
    and l: "percentage (local_food p)" and o: "percentage (organic_food p)"
    and w: "percentage (food_waste p)" and pr: "percentage (processed_food p)"
    by (simp_all add: valid_profile_def)
  from diet_type_factor [OF m]
  obtain fd where fd: "factor_num (diet_type p) = Inr fd" and fd0: "0 \<le> fd" by blast
  have l0: "0 \<le> 1 - real_of_int (local_food p) / 200"
    using percentage_bounds [OF l] by simp
  have o0: "0 \<le> 1 - real_of_int (organic_food p) / 250"
    using percentage_bounds [OF o] by simp
  have w0: "0 \<le> 1 + real_of_int (food_waste p) / 100"
    using percentage_bounds [OF w] by simp
  have p0: "0 \<le> 1 + real_of_int (processed_food p) / 200"
    using percentage_bounds [OF pr] by simp
  have "0 \<le> (fd * 365) *
          ((1 - real_of_int (local_food p) / 200) * (1 - real_of_int (organic_food p) / 250)
           * (1 + real_of_int (food_waste p) / 100)
           * (1 + real_of_int (processed_food p) / 200))"
    using fd0 l0 o0 w0 p0 by (intro mult_nonneg_nonneg) simp_all
  moreover have "diet_emissions p =
      Inr ((fd * 365) *
          ((1 - real_of_int (local_food p) / 200) * (1 - real_of_int (organic_food p) / 250)
           * (1 + real_of_int (food_waste p) / 100)
           * (1 + real_of_int (processed_food p) / 200)))"
    by (simp add: diet_emissions_def fd Let_def)
  ultimately show ?thesis by blast
qed

lemma recycled_items_length:
  assumes "distinct xs" and "set xs \<subseteq> set recycle_options"
  shows "length xs \<le> 5"
proof -
  have "length xs = card (set xs)"
    using assms(1) by (simp add: distinct_card)
  also have "\<dots> \<le> card (set recycle_options)"
    using assms(2) by (intro card_mono) simp_all
  also have "\<dots> \<le> length recycle_options"
    by (rule card_length)
  also have "\<dots> = 5"
    by (simp add: recycle_options_def)
  finally show ?thesis .
qed

lemma consumption_emissions_nonneg:
  assumes "valid_profile p"
  shows "\<exists>t. consumption_emissions p = Inr t \<and> 0 \<le> t"
proof -
  from assms have m: "clothing_spending p \<in> set clothing_options"
    and el: "0 \<le> electronics_yearly p"
    and di: "distinct (recycled_items p)" and su: "set (recycled_items p) \<subseteq> set recycle_options"
    and s: "percentage (second_hand p)"
    by (simp_all add: valid_profile_def)
  from clothing_factor [OF m]
  obtain cf where cf: "factor_sub ''Clothing Spending'' (clothing_spending p) = Inr cf"
    and cf0: "0 \<le> cf" by blast
  have "real (length (recycled_items p)) \<le> 5"
    using recycled_items_length [OF di su] by simp
  then have r0: "0 \<le> 1 - real (length (recycled_items p)) * 0.05"
    by simp
  have s0: "0 \<le> 1 - real_of_int (second_hand p) / 200"
    using percentage_bounds [OF s] by simp
  have c0: "0 \<le> 0 + cf * 500 + real_of_int (electronics_yearly p) * 100"
    using cf0 el by simp
  have "0 \<le> (0 + cf * 500 + real_of_int (electronics_yearly p) * 100) *
          ((1 - real (length (recycled_items p)) * 0.05)
           * (1 - real_of_int (second_hand p) / 200))"
    using c0 r0 s0 by (intro mult_nonneg_nonneg)
  moreover have "consumption_emissions p =
      Inr ((0 + cf * 500 + real_of_int (electronics_yearly p) * 100) *
          ((1 - real (length (recycled_items p)) * 0.05)
           * (1 - real_of_int (second_hand p) / 200)))"
    by (simp add: consumption_emissions_def cf factor_num_simps Let_def)
  ultimately show ?thesis by blast
qed

lemma waste_emissions_nonneg:
  assumes "valid_profile p"
  shows "\<exists>t. waste_emissions p = Inr t \<and> 0 \<le> t"
proof -
  from assms have m: "zero_waste p \<in> set zero_waste_options"
    and w: "0 \<le> waste_weekly p" and r: "percentage (recycling_rate p)"
    by (simp_all add: valid_profile_def)
  from zero_waste_factor [OF m]
  obtain fz where fz: "factor_sub ''Zero Waste Efforts'' (zero_waste p) = Inr fz"
    and fz0: "0 \<le> fz" by blast
  define w1 where "w1 = (if composting p then waste_weekly p * 0.5 * 52 * 0.8
                         else waste_weekly p * 0.5 * 52)"
  have w10: "0 \<le> w1"
    using w by (simp add: w1_def)
  have r0: "0 \<le> 1 - real_of_int (recycling_rate p) / 200"
    using percentage_bounds [OF r] by simp
  have "0 \<le> w1 * (1 - real_of_int (recycling_rate p) / 200) * fz"
    using w10 r0 fz0 by (intro mult_nonneg_nonneg)
  moreover have "waste_emissions p =
      Inr (w1 * (1 - real_of_int (recycling_rate p) / 200) * fz)"
    by (simp add: waste_emissions_def fz factor_num_simps Let_def w1_def)
  ultimately show ?thesis by blast
qed

text \<open>
  C2. On every valid profile each of the five estimators returns a value that is not
  negative, and the total is the sum of the five values (exactly, hence within 1e-9).
\<close>

theorem valid_profile_breakdown:
  assumes "valid_profile p"
  shows "\<exists>t e d c w.
           transport_emissions p = Inr t \<and> 0 \<le> t \<and>
           energy_emissions p = Inr e \<and> 0 \<le> e \<and>
           diet_emissions p = Inr d \<and> 0 \<le> d \<and>
           consumption_emissions p = Inr c \<and> 0 \<le> c \<and>
           waste_emissions p = Inr w \<and> 0 \<le> w \<and>
           (\<exists>b. compute_breakdown p = Inr b \<and>
                b_transport b = t \<and> b_home_energy b = e \<and> b_diet b = d \<and>
                b_consumption b = c \<and> b_waste b = w \<and>
                b_total b = t + e + d + c + w \<and>
                \<bar>b_total b - (t + e + d + c + w)\<bar> \<le> 1 / 10 ^ 9)"
proof -
  from transport_emissions_nonneg [OF assms]
  obtain t where t: "transport_emissions p = Inr t" "0 \<le> t" by blast
  from energy_emissions_nonneg [OF assms]
  obtain e where e: "energy_emissions p = Inr e" "0 \<le> e" by blast
  from diet_emissions_nonneg [OF assms]
  obtain d where d: "diet_emissions p = Inr d" "0 \<le> d" by blast
  from consumption_emissions_nonneg [OF assms]
  obtain c where c: "consumption_emissions p = Inr c" "0 \<le> c" by blast
  from waste_emissions_nonneg [OF assms]
  obtain w where w: "waste_emissions p = Inr w" "0 \<le> w" by blast
  have "compute_breakdown p =
          Inr \<lparr>b_transport = t, b_home_energy = e, b_diet = d, b_consumption = c,
               b_waste = w, b_total = t + e + d + c + w\<rparr>"
    by (simp add: compute_breakdown_def t e d c w)
  then have "\<exists>b. compute_breakdown p = Inr b \<and>
                b_transport b = t \<and> b_home_energy b = e \<and> b_diet b = d \<and>
                b_consumption b = c \<and> b_waste b = w \<and>
                b_total b = t + e + d + c + w \<and>
                \<bar>b_total b - (t + e + d + c + w)\<bar> \<le> 1 / 10 ^ 9"
    by simp
  with t e d c w show ?thesis by blast
qed

lemma valid_scenario_a: "valid_profile scenario_a"
  by (simp add: valid_profile_def scenario_a_def percentage_def transport_modes_def
        heating_types_def diet_types_def clothing_options_def zero_waste_options_def)

theorem valid_profile_breakdown_witness:
  "valid_profile scenario_a \<and>
   compute_breakdown scenario_a =
     Inr \<lparr>b_transport = 3504 / 5, b_home_energy = 4200, b_diet = 4500463797 / 2000000,
          b_consumption = 570, b_waste = 221, b_total = 15884063797 / 2000000\<rparr>"
proof -
  have v: "valid_profile scenario_a"
    by (rule valid_scenario_a)
  have b: "compute_breakdown scenario_a =
     Inr \<lparr>b_transport = 3504 / 5, b_home_energy = 4200, b_diet = 4500463797 / 2000000,
          b_consumption = 570, b_waste = 221, b_total = 15884063797 / 2000000\<rparr>"
    by (simp add: compute_breakdown_def transport_emissions_def commute_emissions_def
          energy_emissions_def heating_factor_def diet_emissions_def
          consumption_emissions_def waste_emissions_def startswith_def
          factor_num_simps factor_sub_simps scenario_a_def Let_def)
  from valid_profile_breakdown [OF v] v b show ?thesis by blast
qed

subsection \<open>The history\<close>

lemma compute_breakdown_succeeds:
  assumes "valid_profile p"
  shows "\<exists>b. compute_breakdown p = Inr b"
proof -
  from transport_emissions_nonneg [OF assms]
  obtain t where t: "transport_emissions p = Inr t" by blast
  from energy_emissions_nonneg [OF assms]
  obtain e where e: "energy_emissions p = Inr e" by blast
  from diet_emissions_nonneg [OF assms]
  obtain d where d: "diet_emissions p = Inr d" by blast
  from consumption_emissions_nonneg [OF assms]
  obtain c where c: "consumption_emissions p = Inr c" by blast
  from waste_emissions_nonneg [OF assms]
  obtain w where w: "waste_emissions p = Inr w" by blast
  show ?thesis
    by (simp add: compute_breakdown_def t e d c w)
qed

text \<open>
  C5. A calculation on a valid profile succeeds and extends every column of the
  history by one entry at its end, leaving the earlier entries in place. Two
  calculations in a row on the same profile add two records that differ in the
  date only, and the history is longer by two.
\<close>

theorem calculate_appends_one_record:
  assumes "valid_profile p"
  shows "\<exists>b s1 s2.
           compute_breakdown p = Inr b \<and>
           calculate s p now1 = Inr s1 \<and>
           calculate s1 p now2 = Inr s2 \<and>
           emissions_data s1 =
             \<lparr>date = date (emissions_data s) @ [now1],
              transport = transport (emissions_data s) @ [b_transport b],
              home_energy = home_energy (emissions_data s) @ [b_home_energy b],
              diet = diet (emissions_data s) @ [b_diet b],
              consumption = consumption (emissions_data s) @ [b_consumption b],
              waste = waste (emissions_data s) @ [b_waste b],
              total = total (emissions_data s) @ [b_total b]\<rparr> \<and>
           emissions_data s2 =
             \<lparr>date = date (emissions_data s) @ [now1, now2],
              transport = transport (emissions_data s) @ [b_transport b, b_transport b],
              home_energy = home_energy (emissions_data s) @ [b_home_energy b, b_home_energy b],
              diet = diet (emissions_data s) @ [b_diet b, b_diet b],
              consumption = consumption (emissions_data s) @ [b_consumption b, b_consumption b],
              waste = waste (emissions_data s) @ [b_waste b, b_waste b],
              total = total (emissions_data s) @ [b_total b, b_total b]\<rparr> \<and>
           history_length s1 = history_length s + 1 \<and>
           history_length s2 = history_length s + 2"
proof -
  from compute_breakdown_succeeds [OF assms]
  obtain b where b: "compute_breakdown p = Inr b" by blast
  define s1 where "s1 =
     \<lparr>total_emissions = b_total b,
      emissions_data =
        \<lparr>date = date (emissions_data s) @ [now1],
         transport = transport (emissions_data s) @ [b_transport b],
         home_energy = home_energy (emissions_data s) @ [b_home_energy b],
         diet = diet (emissions_data s) @ [b_diet b],
         consumption = consumption (emissions_data s) @ [b_consumption b],
         waste = waste (emissions_data s) @ [b_waste b],
         total = total (emissions_data s) @ [b_total b]\<rparr>\<rparr>"
  define s2 where "s2 =
     \<lparr>total_emissions = b_total b,
      emissions_data =
        \<lparr>date = date (emissions_data s) @ [now1, now2],
         transport = transport (emissions_data s) @ [b_transport b, b_transport b],
         home_energy = home_energy (emissions_data s) @ [b_home_energy b, b_home_energy b],
         diet = diet (emissions_data s) @ [b_diet b, b_diet b],
         consumption = consumption (emissions_data s) @ [b_consumption b, b_consumption b],
         waste = waste (emissions_data s) @ [b_waste b, b_waste b],
         total = total (emissions_data s) @ [b_total b, b_total b]\<rparr>\<rparr>"
  have c1: "calculate s p now1 = Inr s1"
    by (simp add: calculate_def b s1_def Let_def)
  have c2: "calculate s1 p now2 = Inr s2"
    by (simp add: calculate_def b s1_def s2_def Let_def)
  have l1: "history_length s1 = history_length s + 1"
    by (simp add: history_length_def s1_def)
  have l2: "history_length s2 = history_length s + 2"
    by (simp add: history_length_def s2_def)
  have e1: "emissions_data s1 =
             \<lparr>date = date (emissions_data s) @ [now1],
              transport = transport (emissions_data s) @ [b_transport b],
              home_energy = home_energy (emissions_data s) @ [b_home_energy b],
              diet = diet (emissions_data s) @ [b_diet b],
              consumption = consumption (emissions_data s) @ [b_consumption b],
              waste = waste (emissions_data s) @ [b_waste b],
              total = total (emissions_data s) @ [b_total b]\<rparr>"
    by (simp add: s1_def)
  have e2: "emissions_data s2 =
             \<lparr>date = date (emissions_data s) @ [now1, now2],
              transport = transport (emissions_data s) @ [b_transport b, b_transport b],
              home_energy = home_energy (emissions_data s) @ [b_home_energy b, b_home_energy b],
              diet = diet (emissions_data s) @ [b_diet b, b_diet b],
              consumption = consumption (emissions_data s) @ [b_consumption b, b_consumption b],
              waste = waste (emissions_data s) @ [b_waste b, b_waste b],
              total = total (emissions_data s) @ [b_total b, b_total b]\<rparr>"
    by (simp add: s2_def)
  from b c1 c2 e1 e2 l1 l2 show ?thesis by blast
qed

theorem calculate_appends_one_record_witness:
  "valid_profile scenario_a \<and>
   (\<exists>s1 s2. calculate initial_state scenario_a ''2026-01-01'' = Inr s1 \<and>
            calculate s1 scenario_a ''2026-01-02'' = Inr s2 \<and>
            date (emissions_data s2) = [''2026-01-01'', ''2026-01-02''] \<and>
            history_length s1 = 1 \<and> history_length s2 = 2)"
proof -
  have v: "valid_profile scenario_a"
    by (rule valid_scenario_a)
  have i: "date (emissions_data initial_state) = []" "history_length initial_state = 0"
    by (simp_all add: initial_state_def history_length_def)
  from calculate_appends_one_record
         [OF v, of initial_state "''2026-01-01''" "''2026-01-02''"]
  show ?thesis
    unfolding i by (elim exE conjE) (simp add: v)
qed

subsection \<open>The focus category\<close>

lemma py_max_Max:
  "py_max (x # xs) = Inr (Max (set (x # xs)))"
proof -
  have "(\<lambda>y m. if m < y then y else m) = (max :: real \<Rightarrow> real \<Rightarrow> real)"
    by (auto simp: fun_eq_iff max_def)
  then have "py_max (x # xs) = Inr (fold max xs x)"
    by simp
  also have "fold max xs x = Max (set (x # xs))"
    by (rule Max.set_eq_fold [symmetric])
  finally show ?thesis .
qed

lemma py_index_first:
  assumes "v \<in> set xs"
  shows "\<exists>i. py_index xs v = Inr i \<and> i < length xs \<and> xs ! i = v \<and> (\<forall>j<i. xs ! j \<noteq> v)"
  using assms
proof (induction xs)
  case Nil
  then show ?case by simp
next
  case (Cons x xs)
  show ?case
  proof (cases "x = v")
    case True
    then show ?thesis by simp
  next
    case False
    with Cons.prems have "v \<in> set xs" by simp
    from Cons.IH [OF this]
    obtain i where i: "py_index xs v = Inr i" "i < length xs" "xs ! i = v"
      "\<forall>j<i. xs ! j \<noteq> v" by blast
    have "\<forall>j<Suc i. (x # xs) ! j \<noteq> v"
      using False i(4) by (auto simp: less_Suc_eq_0_disj)
    with False i show ?thesis by simp
  qed
qed

lemma recommendations_four:
  assumes "i < 5"
  shows "\<exists>recs. map_of recommendations (categories ! i) = Some recs \<and> length recs = 4"
proof -
  from assms have "i = 0 \<or> i = 1 \<or> i = 2 \<or> i = 3 \<or> i = 4" by arith
  then show ?thesis
    by (elim disjE) (simp_all add: categories_def recommendations_def)
qed

text \<open>
  C8. On five category values the selector returns the category of a maximal
  value; every category before it in the order transport, home_energy, diet,
  consumption, waste has a strictly smaller value, so the first of tied maxima wins.
  With it comes that category's entry of the advice table, which has four items.
\<close>

theorem select_focus_first_maximum:
  assumes "length emissions = 5"
  shows "\<exists>i recs. i < 5 \<and>
           select_focus emissions = Inr (categories ! i, recs) \<and>
           map_of recommendations (categories ! i) = Some recs \<and>
           length recs = 4 \<and>
           (\<forall>j<5. emissions ! j \<le> emissions ! i) \<and>
           (\<forall>j<i. emissions ! j < emissions ! i)"
proof -
  from assms obtain x xs where e: "emissions = x # xs"
    by (cases emissions) auto
  define m where "m = Max (set emissions)"
  have pm: "py_max emissions = Inr m"
    unfolding m_def e by (rule py_max_Max)
  have m_in: "m \<in> set emissions"
    unfolding m_def using e by (intro Max_in) auto
  have m_ge: "y \<le> m" if "y \<in> set emissions" for y
    unfolding m_def using that by (intro Max_ge) auto
  from py_index_first [OF m_in]
  obtain i where i: "py_index emissions m = Inr i" "i < length emissions"
    "emissions ! i = m" "\<forall>j<i. emissions ! j \<noteq> m" by blast
  from i(2) assms have i5: "i < 5" by simp
  from recommendations_four [OF i5]
  obtain recs where recs: "map_of recommendations (categories ! i) = Some recs"
    "length recs = 4" by blast
  have hc: "highest_category emissions = Inr (categories ! i)"
    using i5 by (simp add: highest_category_def highest_category_index_def pm i(1)
                   categories_def)
  have sf: "select_focus emissions = Inr (categories ! i, recs)"
    by (simp add: select_focus_def hc recs(1))
  have ge: "\<forall>j<5. emissions ! j \<le> emissions ! i"
    using m_ge assms by (simp add: i(3))
  have lt: "\<forall>j<i. emissions ! j < emissions ! i"
  proof (intro allI impI)
    fix j assume j: "j < i"
    with i5 assms have "emissions ! j \<in> set emissions" by simp
    then have "emissions ! j \<le> m" by (rule m_ge)
    moreover from i(4) j have "emissions ! j \<noteq> m" by blast
    ultimately show "emissions ! j < emissions ! i" by (simp add: i(3))
  qed
  from i5 sf recs ge lt show ?thesis by blast
qed

theorem select_focus_first_maximum_witness:
  "length [1, 3, 3, 2, 0 :: real] = 5 \<and>
   (\<exists>recs. select_focus [1, 3, 3, 2, 0] = Inr (''home_energy'', recs) \<and> length recs = 4)"
proof -
  have l: "length [1, 3, 3, 2, 0 :: real] = 5" by simp
  have s: "\<exists>recs. select_focus [1, 3, 3, 2, 0] = Inr (''home_energy'', recs) \<and> length recs = 4"
    by (simp add: select_focus_def highest_category_def highest_category_index_def
          categories_def recommendations_def)
  from select_focus_first_maximum [OF l] l s show ?thesis by blast
qed

subsection \<open>The comparisons\<close>

lemma percentage_diff_country_nonzero:
  assumes "r \<noteq> 0"
  shows "percentage_diff_country v r = Finite (((v - r) / r) * 100)"
  using assms by (simp add: percentage_diff_country_def)

lemma percentage_diff_country_zero:
  "percentage_diff_country v 0 = (if 0 < v then PosInf else if v < 0 then NegInf else NaN)"
  by (simp add: percentage_diff_country_def)

text \<open>
  C4, as the code has it. Against the world average the divisor is the constant
  4700 and the difference is (total - 4700) / 4700 * 100. Against a country's
  value \<open>r\<close> that is not zero the difference is (value - r) / r * 100: zero when
  the two are equal and, for positive \<open>r\<close>, positive exactly when the value is the
  higher one. With \<open>r = 0\<close> no error is produced: the numpy division yields an
  infinity, or NaN for 0 / 0.
\<close>

theorem percentage_diff_formula:
  "percentage_diff_world tot = ((tot - 4700) / 4700) * 100 \<and>
   percentage_diff_world 4700 = 0 \<and>
   (r \<noteq> 0 \<longrightarrow> percentage_diff_country v r = Finite (((v - r) / r) * 100)) \<and>
   (x \<noteq> 0 \<longrightarrow> percentage_diff_country x x = Finite 0) \<and>
   (0 < r \<longrightarrow> (0 < ((v - r) / r) * 100) = (r < v)) \<and>
   percentage_diff_country v 0 = (if 0 < v then PosInf else if v < 0 then NegInf else NaN)"
proof (intro conjI impI)
  show "percentage_diff_world tot = ((tot - 4700) / 4700) * 100"
    by (simp add: percentage_diff_world_def world_average_def)
  show "percentage_diff_world 4700 = 0"
    by (simp add: percentage_diff_world_def world_average_def)
  show "percentage_diff_country v r = Finite (((v - r) / r) * 100)" if "r \<noteq> 0"
    using that by (rule percentage_diff_country_nonzero)
  show "percentage_diff_country x x = Finite 0" if "x \<noteq> 0"
    using that by (simp add: percentage_diff_country_nonzero)
  show "(0 < ((v - r) / r) * 100) = (r < v)" if "0 < r"
    using that by (simp add: zero_less_divide_iff)
  show "percentage_diff_country v 0 = (if 0 < v then PosInf else if v < 0 then NegInf else NaN)"
    by (rule percentage_diff_country_zero)
qed

theorem percentage_diff_formula_witness:
  "(4700::real) \<noteq> 0 \<and> 0 < (4700::real) \<and>
   percentage_diff_country 5000 4700 = Finite (300 / 47) \<and>
   percentage_diff_country 4700 4700 = Finite 0 \<and>
   percentage_diff_world 5000 = 300 / 47"
  using percentage_diff_formula [of 5000 4700 5000 4700] by simp

text \<open>
  C4 as stated fails: a reference of zero gives no failure but the value
  \<open>inf\<close>, which the page then prints.
\<close>

theorem percentage_diff_zero_reference_counterexample:
  "percentage_diff_country 5000 0 = PosInf \<and>
   compare_country sort_values_desc sample_df ''C'' 5000 =
     Some \<lparr>cmp_latest_year = 2019, cmp_reference = 0, cmp_percentage_diff = PosInf\<rparr>"
  by (simp add: percentage_diff_country_def compare_country_def country_data_def
        sort_values_desc_def sample_df_def)

subsection \<open>The reference dataset\<close>

lemma sorts_descending_set:
  assumes "sorts_descending srt"
  shows "set (srt key xs) = set xs"
  using assms unfolding sorts_descending_def by (metis mset_eq_setD)

lemma sorts_descending_length:
  assumes "sorts_descending srt"
  shows "length (srt key xs) = length xs"
  using assms unfolding sorts_descending_def by (metis mset_eq_length)

lemma sorts_descending_sorted:
  assumes "sorts_descending srt"
  shows "sorted_wrt (\<lambda>a b. key b \<le> key a) (srt key xs)"
  using assms unfolding sorts_descending_def by blast

lemma sorts_descending_head:
  assumes "sorts_descending srt" and "srt key xs = r # rs" and "x \<in> set xs"
  shows "key x \<le> key r"
proof -
  from sorts_descending_sorted [OF assms(1), of key xs] assms(2)
  have "\<forall>y \<in> set rs. key y \<le> key r" by simp
  moreover from sorts_descending_set [OF assms(1), of key xs] assms(2,3)
  have "x = r \<or> x \<in> set rs" by auto
  ultimately show ?thesis by auto
qed

lemma sort_values_desc_sorts: "sorts_descending sort_values_desc"
proof -
  have "sorted_wrt (\<lambda>a b. key b \<le> key a) (sort_key (\<lambda>r. - key r) xs)"
    for key :: "ref_record \<Rightarrow> real" and xs
  proof -
    have "sorted (map (\<lambda>r. - key r) (sort_key (\<lambda>r. - key r) xs))"
      by (rule sorted_sort_key)
    then show ?thesis by (simp add: sorted_map)
  qed
  then show ?thesis
    by (simp add: sorts_descending_def sort_values_desc_def)
qed

text \<open>
  C10. When the selected country has rows, the reference of the comparison is
  the per-capita value of a row of that country whose year is its most recent one,
  times 1000, and the percentage difference is computed against that product.
\<close>

theorem compare_country_reference:
  assumes "sorts_descending srt" and "c \<in> country ` set df"
  shows "\<exists>cmp row.
           compare_country srt df c tot = Some cmp \<and>
           row \<in> set df \<and> country row = c \<and>
           (\<forall>r \<in> set df. country r = c \<longrightarrow> year r \<le> year row) \<and>
           cmp_latest_year cmp = year row \<and>
           cmp_reference cmp = metric_tons_per_capita row * 1000 \<and>
           cmp_percentage_diff cmp =
             percentage_diff_country tot (metric_tons_per_capita row * 1000)"
proof -
  define rows where "rows = filter (\<lambda>r. country r = c) df"
  define key :: "ref_record \<Rightarrow> real" where "key = (\<lambda>r. real_of_int (year r))"
  have cd: "country_data srt df c = srt key rows"
    by (simp add: country_data_def rows_def key_def)
  from assms(2) have "rows \<noteq> []"
    by (auto simp: rows_def filter_empty_conv)
  then have "length (srt key rows) \<noteq> 0"
    by (simp add: sorts_descending_length [OF assms(1)])
  then obtain row rest where s: "srt key rows = row # rest"
    by (cases "srt key rows") auto
  have "row \<in> set (srt key rows)"
    by (simp add: s)
  then have "row \<in> set rows"
    by (simp add: sorts_descending_set [OF assms(1)])
  then have row: "row \<in> set df" "country row = c"
    by (simp_all add: rows_def)
  have latest: "\<forall>r \<in> set df. country r = c \<longrightarrow> year r \<le> year row"
  proof (intro ballI impI)
    fix r assume "r \<in> set df" "country r = c"
    then have "r \<in> set rows" by (simp add: rows_def)
    from sorts_descending_head [OF assms(1) s this]
    show "year r \<le> year row" by (simp add: key_def)
  qed
  have "compare_country srt df c tot =
          Some \<lparr>cmp_latest_year = year row,
                cmp_reference = metric_tons_per_capita row * 1000,
                cmp_percentage_diff =
                  percentage_diff_country tot (metric_tons_per_capita row * 1000)\<rparr>"
    by (simp add: compare_country_def cd s Let_def)
  with row latest show ?thesis by auto
qed

theorem compare_country_reference_witness:
  "sorts_descending sort_values_desc \<and> ''B'' \<in> country ` set sample_df \<and>
   compare_country sort_values_desc sample_df ''B'' 5000 =
     Some \<lparr>cmp_latest_year = 2019, cmp_reference = 7 * 1000,
           cmp_percentage_diff = Finite (((5000 - 7000) / 7000) * 100)\<rparr>"
proof -
  have c: "''B'' \<in> country ` set sample_df"
    by (simp add: sample_df_def)
  have v: "compare_country sort_values_desc sample_df ''B'' 5000 =
     Some \<lparr>cmp_latest_year = 2019, cmp_reference = 7 * 1000,
           cmp_percentage_diff = Finite (((5000 - 7000) / 7000) * 100)\<rparr>"
    by (simp add: percentage_diff_country_def compare_country_def country_data_def
        sort_values_desc_def sample_df_def)
  from compare_country_reference [OF sort_values_desc_sorts c, of 5000]
    sort_values_desc_sorts c v
  show ?thesis by blast
qed

lemma global_data_unzip:
  "map fst (global_data srt df y) =
     [1 ..< Suc (length (srt metric_tons_per_capita (filter (\<lambda>r. year r = y) df)))]"
  "map snd (global_data srt df y) =
     srt metric_tons_per_capita (filter (\<lambda>r. year r = y) df)"
  by (simp_all add: global_data_def Let_def del: upt_Suc)

text \<open>
  C6. The ranking of a year with N rows carries the ranks 1, 2, ..., N in this
  order, over exactly the rows of that year, in descending order of the per-capita
  value. A country that has a row in that year whose value is above that of every
  row of every other country has rank 1.
\<close>

theorem global_data_ranks:
  assumes "sorts_descending srt"
  shows "map fst (global_data srt df y) =
           [1 ..< Suc (length (filter (\<lambda>r. year r = y) df))] \<and>
         distinct (map fst (global_data srt df y)) \<and>
         mset (map snd (global_data srt df y)) = mset (filter (\<lambda>r. year r = y) df) \<and>
         sorted_wrt (\<lambda>a b. metric_tons_per_capita b \<le> metric_tons_per_capita a)
           (map snd (global_data srt df y)) \<and>
         (\<forall>top \<in> set df.
            year top = y \<and>
            (\<forall>r \<in> set df. year r = y \<and> country r \<noteq> country top \<longrightarrow>
               metric_tons_per_capita r < metric_tons_per_capita top)
            \<longrightarrow> country_rank srt df y (country top) = Inr 1)"
proof (intro conjI ballI impI)
  define rows where "rows = filter (\<lambda>r. year r = y) df"
  define sorted_rows where "sorted_rows = srt metric_tons_per_capita rows"
  have len: "length sorted_rows = length rows"
    unfolding sorted_rows_def by (rule sorts_descending_length [OF assms])
  show ranks: "map fst (global_data srt df y) =
           [1 ..< Suc (length (filter (\<lambda>r. year r = y) df))]"
    using len by (simp add: global_data_unzip sorted_rows_def rows_def)
  show "distinct (map fst (global_data srt df y))"
    unfolding ranks by simp
  show "mset (map snd (global_data srt df y)) = mset (filter (\<lambda>r. year r = y) df)"
    using assms by (simp add: global_data_unzip sorts_descending_def)
  show "sorted_wrt (\<lambda>a b. metric_tons_per_capita b \<le> metric_tons_per_capita a)
           (map snd (global_data srt df y))"
    unfolding global_data_unzip by (rule sorts_descending_sorted [OF assms])
  fix top
  assume top: "top \<in> set df"
    and h: "year top = y \<and>
            (\<forall>r \<in> set df. year r = y \<and> country r \<noteq> country top \<longrightarrow>
               metric_tons_per_capita r < metric_tons_per_capita top)"
  from top h have top_in: "top \<in> set rows"
    by (simp add: rows_def)
  then have "length sorted_rows \<noteq> 0"
    using len by auto
  then obtain r rest where s: "sorted_rows = r # rest"
    by (cases sorted_rows) auto
  have "r \<in> set sorted_rows"
    by (simp add: s)
  then have "r \<in> set rows"
    unfolding sorted_rows_def by (simp add: sorts_descending_set [OF assms])
  then have r: "r \<in> set df" "year r = y"
    by (simp_all add: rows_def)
  have "metric_tons_per_capita top \<le> metric_tons_per_capita r"
    using sorts_descending_head [OF assms _ top_in] s
    by (simp add: sorted_rows_def)
  with h r have c: "country r = country top"
    by force
  have "[1 ..< Suc (length sorted_rows)] = 1 # [Suc 1 ..< Suc (length sorted_rows)]"
    unfolding s by (rule upt_conv_Cons) simp
  then have "global_data srt df y =
               (1, r) # zip [Suc 1 ..< Suc (length sorted_rows)] rest"
    unfolding global_data_def Let_def rows_def [symmetric] sorted_rows_def [symmetric]
    by (simp add: s del: upt_Suc)
  then show "country_rank srt df y (country top) = Inr 1"
    by (simp add: country_rank_def c del: upt_Suc)
qed

theorem global_data_ranks_witness:
  "sorts_descending sort_values_desc \<and>
   map fst (global_data sort_values_desc sample_df 2019) = [1, 2, 3] \<and>
   map country (map snd (global_data sort_values_desc sample_df 2019)) = [''B'', ''A'', ''C''] \<and>
   country_rank sort_values_desc sample_df 2019 ''B'' = Inr 1"
proof -
  have v: "global_data sort_values_desc sample_df 2019 =
            [(1, sample_df ! 3), (2, sample_df ! 2), (3, sample_df ! 4)]"
    by (simp add: global_data_def sort_values_desc_def sample_df_def Let_def upt_rec)
  have "map fst (global_data sort_values_desc sample_df 2019) = [1, 2, 3]"
    by (simp add: v)
  moreover have "map country (map snd (global_data sort_values_desc sample_df 2019))
                   = [''B'', ''A'', ''C'']"
    by (simp add: v) (simp add: sample_df_def)
  moreover have "country_rank sort_values_desc sample_df 2019 ''B'' = Inr 1"
    by (simp add: country_rank_def v) (simp add: sample_df_def)
  moreover note global_data_ranks [OF sort_values_desc_sorts, of sample_df 2019]
    sort_values_desc_sorts
  ultimately show ?thesis by blast
qed

lemma growth_pct_Finite:
  "growth_pct (Finite a) (Finite b) =
     (if b \<noteq> 0 then Finite ((a / b - 1) * 100)
      else if 0 < a then PosInf else if a < 0 then NegInf else NaN)"
  by (simp add: growth_pct_def)

lemma region_growth_pct_years:
  assumes "g \<in> region ` set df"
  shows "region_growth_pct df g =
           Some (Inr (growth_pct (kilotons_cell df (Max (year ` set df)) g)
                                 (kilotons_cell df (Min (year ` set df)) g)))"
proof -
  from assms obtain r rs where df: "df = r # rs"
    by (cases df) auto
  have mn: "fold min (map year rs) (year r) = Min (year ` set df)"
    unfolding df using Min.set_eq_fold [of "year r" "map year rs"] by simp
  have mx: "fold max (map year rs) (year r) = Max (year ` set df)"
    unfolding df using Max.set_eq_fold [of "year r" "map year rs"] by simp
  have "region_growth_pct df g =
          Some (Inr (growth_pct (kilotons_cell df (fold max (map year rs) (year r)) g)
                                (kilotons_cell df (fold min (map year rs) (year r)) g)))"
    using assms by (simp add: region_growth_pct_def df Let_def)
  then show ?thesis
    by (simp only: mn mx)
qed

text \<open>
  C7, as the code has it. For a region of the data, the growth is computed from
  the region's kilotons summed over the latest and over the earliest year of the
  data. When both sums exist and the earliest is not zero, it is
  (latest / earliest - 1) * 100, the percentage change. When the earliest sum is
  zero nothing fails: the result is an infinity, or NaN when the latest is zero too.
\<close>

theorem region_growth_pct_result:
  assumes "g \<in> region ` set df"
  shows "\<exists>v. region_growth_pct df g = Some (Inr v) \<and>
           (\<forall>a b. kilotons_cell df (Max (year ` set df)) g = Finite a \<and>
                  kilotons_cell df (Min (year ` set df)) g = Finite b \<longrightarrow>
              (b \<noteq> 0 \<longrightarrow> v = Finite ((a / b - 1) * 100) \<and>
                              v = Finite (((a - b) / b) * 100)) \<and>
              (b = 0 \<longrightarrow> \<not> is_finite v \<and>
                         v = (if 0 < a then PosInf else if a < 0 then NegInf else NaN)))"
proof -
  define v where "v = growth_pct (kilotons_cell df (Max (year ` set df)) g)
                                 (kilotons_cell df (Min (year ` set df)) g)"
  have r: "region_growth_pct df g = Some (Inr v)"
    unfolding v_def by (rule region_growth_pct_years [OF assms])
  have "(b \<noteq> 0 \<longrightarrow> v = Finite ((a / b - 1) * 100) \<and> v = Finite (((a - b) / b) * 100)) \<and>
        (b = 0 \<longrightarrow> \<not> is_finite v \<and>
                   v = (if 0 < a then PosInf else if a < 0 then NegInf else NaN))"
    if "kilotons_cell df (Max (year ` set df)) g = Finite a"
      and "kilotons_cell df (Min (year ` set df)) g = Finite b" for a b
    unfolding v_def that growth_pct_Finite
    by (simp add: is_finite_def diff_divide_distrib)
  with r show ?thesis by blast
qed

theorem region_growth_pct_result_witness:
  "''North'' \<in> region ` set sample_df \<and>
   kilotons_cell sample_df (Max (year ` set sample_df)) ''North'' = Finite 15 \<and>
   kilotons_cell sample_df (Min (year ` set sample_df)) ''North'' = Finite 10 \<and>
   region_growth_pct sample_df ''North'' = Some (Inr (Finite 50))"
proof -
  have g: "''North'' \<in> region ` set sample_df"
    by (simp add: sample_df_def)
  have mx: "Max (year ` set sample_df) = 2019" and mn: "Min (year ` set sample_df) = 1990"
    by (simp_all add: sample_df_def)
  have a: "kilotons_cell sample_df (Max (year ` set sample_df)) ''North'' = Finite 15"
    unfolding mx by (simp add: kilotons_cell_def sample_df_def)
  have b: "kilotons_cell sample_df (Min (year ` set sample_df)) ''North'' = Finite 10"
    unfolding mn by (simp add: kilotons_cell_def sample_df_def)
  from region_growth_pct_result [OF g]
  obtain v where v: "region_growth_pct sample_df ''North'' = Some (Inr v)"
    and f: "\<forall>a b. kilotons_cell sample_df (Max (year ` set sample_df)) ''North'' = Finite a \<and>
                  kilotons_cell sample_df (Min (year ` set sample_df)) ''North'' = Finite b \<longrightarrow>
              (b \<noteq> 0 \<longrightarrow> v = Finite ((a / b - 1) * 100) \<and>
                              v = Finite (((a - b) / b) * 100)) \<and>
              (b = 0 \<longrightarrow> \<not> is_finite v \<and>
                         v = (if 0 < a then PosInf else if a < 0 then NegInf else NaN))"
    by blast
  from f a b have "v = Finite ((15 / 10 - 1) * 100)"
    by simp
  then have "v = Finite 50" by simp
  with g a b v show ?thesis by simp
qed

text \<open>
  C7 as stated fails: a region whose earliest-year total is zero gets the
  growth \<open>inf\<close>, not a failure.
\<close>

theorem region_growth_pct_zero_counterexample:
  "kilotons_cell sample_df 1990 ''South'' = Finite 0 \<and>
   region_growth_pct sample_df ''South'' = Some (Inr PosInf)"
  by (simp add: region_growth_pct_def kilotons_cell_def growth_pct_def sample_df_def)

subsection \<open>Keys outside the tables\<close>

lemma factor_num_missing:
  assumes "map_of emission_factors k = None"
  shows "factor_num k = Inl (KeyError k)"
  using assms by (simp add: factor_num_def)

lemma transport_emissions_missing:
  assumes "map_of emission_factors (transport_mode p) = None"
  shows "transport_emissions p = Inl (KeyError (transport_mode p))"
proof -
  have "commute_emissions p = Inl (KeyError (transport_mode p))"
    unfolding commute_emissions_def factor_num_missing [OF assms] by simp
  then show ?thesis
    by (simp add: transport_emissions_def)
qed

lemma energy_emissions_missing:
  assumes "heating_type p \<noteq> ''Electric''"
    and "map_of emission_factors (heating_type p) = None"
  shows "energy_emissions p = Inl (KeyError (heating_type p))"
  using assms(1)
  by (simp add: energy_emissions_def heating_factor_def factor_num_simps
        factor_num_missing [OF assms(2)])

lemma diet_emissions_missing:
  assumes "map_of emission_factors (diet_type p) = None"
  shows "diet_emissions p = Inl (KeyError (diet_type p))"
  by (simp add: diet_emissions_def factor_num_missing [OF assms])

lemma consumption_emissions_missing:
  assumes "clothing_spending p \<notin> set clothing_options"
  shows "consumption_emissions p = Inl (KeyError (clothing_spending p))"
proof -
  have "factor_sub ''Clothing Spending'' (clothing_spending p)
          = Inl (KeyError (clothing_spending p))"
    using assms by (simp add: factor_sub_def emission_factors_def clothing_options_def)
  then show ?thesis
    by (simp add: consumption_emissions_def)
qed

lemma waste_emissions_missing:
  assumes "zero_waste p \<notin> set zero_waste_options"
  shows "waste_emissions p = Inl (KeyError (zero_waste p))"
proof -
  have "factor_sub ''Zero Waste Efforts'' (zero_waste p) = Inl (KeyError (zero_waste p))"
    using assms by (simp add: factor_sub_def emission_factors_def zero_waste_options_def)
  then show ?thesis
    by (simp add: waste_emissions_def factor_num_simps Let_def)
qed

lemma compute_breakdown_raises:
  assumes "(\<exists>e. transport_emissions p = Inl e) \<or> (\<exists>e. energy_emissions p = Inl e) \<or>
           (\<exists>e. diet_emissions p = Inl e) \<or> (\<exists>e. consumption_emissions p = Inl e) \<or>
           (\<exists>e. waste_emissions p = Inl e)"
  shows "\<exists>e. compute_breakdown p = Inl e"
  using assms unfolding compute_breakdown_def
  by (cases "transport_emissions p"; cases "energy_emissions p"; cases "diet_emissions p";
      cases "consumption_emissions p"; cases "waste_emissions p") simp_all

lemma calculate_raises:
  assumes "compute_breakdown p = Inl e"
  shows "calculate s p now = Inl e"
  using assms by (simp add: calculate_def)

lemma transport_emissions_returns:
  assumes "transport_mode p \<in> set transport_modes"
  shows "\<exists>t. transport_emissions p = Inr t"
proof -
  from transport_mode_factor [OF assms]
  obtain f where f: "factor_num (transport_mode p) = Inr f" by blast
  show ?thesis
    by (simp add: transport_emissions_def commute_emissions_Inr [OF f] factor_num_simps)
qed

lemma energy_emissions_returns:
  assumes "heating_type p \<in> set heating_types"
  shows "\<exists>e. energy_emissions p = Inr e"
proof -
  from heating_type_factor [OF assms]
  obtain hf where hf: "heating_factor p = Inr hf" by blast
  show ?thesis
    by (cases "has_ac p") (simp_all add: energy_emissions_def hf factor_num_simps Let_def)
qed

lemma diet_emissions_returns:
  assumes "diet_type p \<in> set diet_types"
  shows "\<exists>d. diet_emissions p = Inr d"
proof -
  from diet_type_factor [OF assms]
  obtain fd where fd: "factor_num (diet_type p) = Inr fd" by blast
  show ?thesis
    by (simp add: diet_emissions_def fd Let_def)
qed

lemma consumption_emissions_returns:
  assumes "clothing_spending p \<in> set clothing_options"
  shows "\<exists>c. consumption_emissions p = Inr c"
proof -
  from clothing_factor [OF assms]
  obtain cf where cf: "factor_sub ''Clothing Spending'' (clothing_spending p) = Inr cf"
    by blast
  show ?thesis
    by (simp add: consumption_emissions_def cf factor_num_simps Let_def)
qed

text \<open>
  C3, as the code has it. There is no validation step and no ValidationError: a
  key is rejected where its table is read. A transport mode or diet type that is no
  key of the factor table, a heating type other than \<open>Electric\<close> that is no key of
  it, a clothing tier or a packaging tier that is no key of its multiplier table:
  the estimator that reads it raises the KeyError of that key, and whenever the
  estimators before it (in the order transport, home energy, diet, consumption,
  waste) have returned their values, that KeyError is the outcome of the whole
  calculation. Those earlier estimators do return when their own keys are options of
  the select boxes. In every case the calculation ends in an exception, so that no
  state is produced and the history stays as it was; no factor is substituted.
\<close>

theorem unknown_key_raises:
  "(map_of emission_factors (transport_mode p) = None \<longrightarrow>
      transport_emissions p = Inl (KeyError (transport_mode p)) \<and>
      calculate s p now = Inl (KeyError (transport_mode p))) \<and>
   (heating_type p \<noteq> ''Electric'' \<and> map_of emission_factors (heating_type p) = None \<longrightarrow>
      energy_emissions p = Inl (KeyError (heating_type p)) \<and>
      (\<forall>t. transport_emissions p = Inr t \<longrightarrow>
         calculate s p now = Inl (KeyError (heating_type p)))) \<and>
   (map_of emission_factors (diet_type p) = None \<longrightarrow>
      diet_emissions p = Inl (KeyError (diet_type p)) \<and>
      (\<forall>t e. transport_emissions p = Inr t \<and> energy_emissions p = Inr e \<longrightarrow>
         calculate s p now = Inl (KeyError (diet_type p)))) \<and>
   (clothing_spending p \<notin> set clothing_options \<longrightarrow>
      consumption_emissions p = Inl (KeyError (clothing_spending p)) \<and>
      (\<forall>t e d. transport_emissions p = Inr t \<and> energy_emissions p = Inr e \<and>
               diet_emissions p = Inr d \<longrightarrow>
         calculate s p now = Inl (KeyError (clothing_spending p)))) \<and>
   (zero_waste p \<notin> set zero_waste_options \<longrightarrow>
      waste_emissions p = Inl (KeyError (zero_waste p)) \<and>
      (\<forall>t e d c. transport_emissions p = Inr t \<and> energy_emissions p = Inr e \<and>
                 diet_emissions p = Inr d \<and> consumption_emissions p = Inr c \<longrightarrow>
         calculate s p now = Inl (KeyError (zero_waste p)))) \<and>
   (transport_mode p \<in> set transport_modes \<longrightarrow> (\<exists>t. transport_emissions p = Inr t)) \<and>
   (heating_type p \<in> set heating_types \<longrightarrow> (\<exists>e. energy_emissions p = Inr e)) \<and>
   (diet_type p \<in> set diet_types \<longrightarrow> (\<exists>d. diet_emissions p = Inr d)) \<and>
   (clothing_spending p \<in> set clothing_options \<longrightarrow>
      (\<exists>c. consumption_emissions p = Inr c)) \<and>
   (map_of emission_factors (transport_mode p) = None \<or>
    (heating_type p \<noteq> ''Electric'' \<and> map_of emission_factors (heating_type p) = None) \<or>
    map_of emission_factors (diet_type p) = None \<or>
    clothing_spending p \<notin> set clothing_options \<or>
    zero_waste p \<notin> set zero_waste_options \<longrightarrow>
      (\<exists>e. compute_breakdown p = Inl e \<and> calculate s p now = Inl e))"
proof (intro conjI impI allI)
  assume m: "map_of emission_factors (transport_mode p) = None"
  show "transport_emissions p = Inl (KeyError (transport_mode p))"
    by (rule transport_emissions_missing [OF m])
  then have "compute_breakdown p = Inl (KeyError (transport_mode p))"
    by (simp add: compute_breakdown_def)
  then show "calculate s p now = Inl (KeyError (transport_mode p))"
    by (rule calculate_raises)
next
  assume m: "heating_type p \<noteq> ''Electric'' \<and> map_of emission_factors (heating_type p) = None"
  then show en: "energy_emissions p = Inl (KeyError (heating_type p))"
    by (simp add: energy_emissions_missing)
  fix t assume "transport_emissions p = Inr t"
  with en have "compute_breakdown p = Inl (KeyError (heating_type p))"
    by (simp add: compute_breakdown_def)
  then show "calculate s p now = Inl (KeyError (heating_type p))"
    by (rule calculate_raises)
next
  assume m: "map_of emission_factors (diet_type p) = None"
  show di: "diet_emissions p = Inl (KeyError (diet_type p))"
    by (rule diet_emissions_missing [OF m])
  fix t e assume "transport_emissions p = Inr t \<and> energy_emissions p = Inr e"
  with di have "compute_breakdown p = Inl (KeyError (diet_type p))"
    by (simp add: compute_breakdown_def)
  then show "calculate s p now = Inl (KeyError (diet_type p))"
    by (rule calculate_raises)
next
  assume m: "clothing_spending p \<notin> set clothing_options"
  show co: "consumption_emissions p = Inl (KeyError (clothing_spending p))"
    by (rule consumption_emissions_missing [OF m])
  fix t e d
  assume "transport_emissions p = Inr t \<and> energy_emissions p = Inr e \<and>
          diet_emissions p = Inr d"
  with co have "compute_breakdown p = Inl (KeyError (clothing_spending p))"
    by (simp add: compute_breakdown_def)
  then show "calculate s p now = Inl (KeyError (clothing_spending p))"
    by (rule calculate_raises)
next
  assume m: "zero_waste p \<notin> set zero_waste_options"
  show wa: "waste_emissions p = Inl (KeyError (zero_waste p))"
    by (rule waste_emissions_missing [OF m])
  fix t e d c
  assume "transport_emissions p = Inr t \<and> energy_emissions p = Inr e \<and>
          diet_emissions p = Inr d \<and> consumption_emissions p = Inr c"
  with wa have "compute_breakdown p = Inl (KeyError (zero_waste p))"
    by (simp add: compute_breakdown_def)
  then show "calculate s p now = Inl (KeyError (zero_waste p))"
    by (rule calculate_raises)
next
  assume "transport_mode p \<in> set transport_modes"
  then show "\<exists>t. transport_emissions p = Inr t"
    by (rule transport_emissions_returns)
next
  assume "heating_type p \<in> set heating_types"
  then show "\<exists>e. energy_emissions p = Inr e"
    by (rule energy_emissions_returns)
next
  assume "diet_type p \<in> set diet_types"
  then show "\<exists>d. diet_emissions p = Inr d"
    by (rule diet_emissions_returns)
next
  assume "clothing_spending p \<in> set clothing_options"
  then show "\<exists>c. consumption_emissions p = Inr c"
    by (rule consumption_emissions_returns)
next
  assume "map_of emission_factors (transport_mode p) = None \<or>
    (heating_type p \<noteq> ''Electric'' \<and> map_of emission_factors (heating_type p) = None) \<or>
    map_of emission_factors (diet_type p) = None \<or>
    clothing_spending p \<notin> set clothing_options \<or>
    zero_waste p \<notin> set zero_waste_options"
  then have "(\<exists>e. transport_emissions p = Inl e) \<or> (\<exists>e. energy_emissions p = Inl e) \<or>
        (\<exists>e. diet_emissions p = Inl e) \<or> (\<exists>e. consumption_emissions p = Inl e) \<or>
        (\<exists>e. waste_emissions p = Inl e)"
    using transport_emissions_missing [of p] energy_emissions_missing [of p]
      diet_emissions_missing [of p] consumption_emissions_missing [of p]
      waste_emissions_missing [of p]
    by blast
  from compute_breakdown_raises [OF this]
  obtain e where e: "compute_breakdown p = Inl e" by blast
  with calculate_raises [OF e]
  show "\<exists>e. compute_breakdown p = Inl e \<and> calculate s p now = Inl e"
    by blast
qed

theorem unknown_key_raises_witness:
  "map_of emission_factors (transport_mode (scenario_a\<lparr>transport_mode := ''Tram''\<rparr>)) = None \<and>
   calculate initial_state (scenario_a\<lparr>transport_mode := ''Tram''\<rparr>) ''2026-01-01''
     = Inl (KeyError ''Tram'') \<and>
   zero_waste (scenario_a\<lparr>zero_waste := ''Some''\<rparr>) \<notin> set zero_waste_options \<and>
   transport_emissions (scenario_a\<lparr>zero_waste := ''Some''\<rparr>) = Inr (3504 / 5) \<and>
   energy_emissions (scenario_a\<lparr>zero_waste := ''Some''\<rparr>) = Inr 4200 \<and>
   diet_emissions (scenario_a\<lparr>zero_waste := ''Some''\<rparr>) = Inr (4500463797 / 2000000) \<and>
   consumption_emissions (scenario_a\<lparr>zero_waste := ''Some''\<rparr>) = Inr 570 \<and>
   calculate initial_state (scenario_a\<lparr>zero_waste := ''Some''\<rparr>) ''2026-01-01''
     = Inl (KeyError ''Some'')"
proof -
  let ?p = "scenario_a\<lparr>transport_mode := ''Tram''\<rparr>"
  let ?q = "scenario_a\<lparr>zero_waste := ''Some''\<rparr>"
  have t: "map_of emission_factors (transport_mode ?p) = None"
    by (simp add: emission_factors_def)
  have z: "zero_waste ?q \<notin> set zero_waste_options"
    by (simp add: zero_waste_options_def)
  have r: "transport_emissions ?q = Inr (3504 / 5)" "energy_emissions ?q = Inr 4200"
    "diet_emissions ?q = Inr (4500463797 / 2000000)" "consumption_emissions ?q = Inr 570"
    by (simp_all add: transport_emissions_def commute_emissions_def energy_emissions_def
          heating_factor_def diet_emissions_def consumption_emissions_def startswith_def
          factor_num_simps factor_sub_simps scenario_a_def Let_def)
  from unknown_key_raises [of ?p initial_state "''2026-01-01''"] t
  have 1: "calculate initial_state ?p ''2026-01-01'' = Inl (KeyError ''Tram'')"
    by simp
  note w = unknown_key_raises [of ?q initial_state "''2026-01-01''",
      THEN conjunct2, THEN conjunct2, THEN conjunct2, THEN conjunct2, THEN conjunct1,
      THEN mp, OF z, THEN conjunct2, rule_format]
  have "calculate initial_state ?q ''2026-01-01'' = Inl (KeyError (zero_waste ?q))"
    by (rule w) (intro conjI, (rule r)+)
  then have 2: "calculate initial_state ?q ''2026-01-01'' = Inl (KeyError ''Some'')"
    by simp
  from t z r 1 2 show ?thesis by blast
qed

text \<open>
  C3 as stated fails: with a diet type that is no key of the table, the failure
  is the KeyError of the dictionary lookup in the diet estimator, the third to
  run; the transport and the home energy estimators have returned their values
  before it.
\<close>

theorem estimators_run_before_key_error_counterexample:
  "map_of emission_factors ''Carnivore'' = None \<and>
   ''Carnivore'' \<notin> set diet_types \<and>
   transport_emissions (scenario_a\<lparr>diet_type := ''Carnivore''\<rparr>) = Inr (3504 / 5) \<and>
   energy_emissions (scenario_a\<lparr>diet_type := ''Carnivore''\<rparr>) = Inr 4200 \<and>
   diet_emissions (scenario_a\<lparr>diet_type := ''Carnivore''\<rparr>) = Inl (KeyError ''Carnivore'') \<and>
   compute_breakdown (scenario_a\<lparr>diet_type := ''Carnivore''\<rparr>) = Inl (KeyError ''Carnivore'') \<and>
   calculate initial_state (scenario_a\<lparr>diet_type := ''Carnivore''\<rparr>) ''2026-01-01''
     = Inl (KeyError ''Carnivore'')"
  by (simp add: calculate_def compute_breakdown_def transport_emissions_def
        commute_emissions_def energy_emissions_def heating_factor_def diet_emissions_def
        startswith_def factor_num_simps factor_num_def [of "''Carnivore''"]
        emission_factors_def diet_types_def scenario_a_def Let_def)

end
